theory Spec2Isabelle
  imports Complex_Main "HOL-Library.AList"
begin

section \<open>Strings and Python values\<close>

text \<open>
  Strings are ASCII character lists. \<open>str.upper()\<close> and \<open>str.lower()\<close> act on the
  26 ASCII letters and leave every other character alone; \<open>str(n)\<close> of a counter is
  its decimal numeral.
\<close>

definition ascii_lowercase :: string where
  "ascii_lowercase = ''abcdefghijklmnopqrstuvwxyz''"

definition ascii_uppercase :: string where
  "ascii_uppercase = ''ABCDEFGHIJKLMNOPQRSTUVWXYZ''"

definition upper_char :: "char \<Rightarrow> char" where
  "upper_char c = (case map_of (zip ascii_lowercase ascii_uppercase) c of
                     Some u \<Rightarrow> u | None \<Rightarrow> c)"

definition lower_char :: "char \<Rightarrow> char" where
  "lower_char c = (case map_of (zip ascii_uppercase ascii_lowercase) c of
                     Some l \<Rightarrow> l | None \<Rightarrow> c)"

definition upper :: "string \<Rightarrow> string" where
  "upper s = map upper_char s"

definition lower :: "string \<Rightarrow> string" where
  "lower s = map lower_char s"

definition digit_char :: "nat \<Rightarrow> char" where
  "digit_char d = ''0123456789'' ! d"

fun str_nat :: "nat \<Rightarrow> string" where
  "str_nat n = (if n < 10 then [digit_char n]
                else str_nat (n div 10) @ [digit_char (n mod 10)])"

declare str_nat.simps [simp del]

definition str_int :: "int \<Rightarrow> string" where
  "str_int i = (if i < 0 then CHR ''-'' # str_nat (nat (- i)) else str_nat (nat i))"

text \<open>
  A value of Python's \<open>Any\<close> as it arrives from JSON: \<open>None\<close>, a boolean, a number
  or a string. Numbers are reals: the code passes them on and never rounds them.
\<close>

datatype pvalue = PNone | PBool bool | PNum real | PStr string

type_synonym pdict = "(string \<times> pvalue) list"

text \<open>\<open>d.get(k)\<close> and \<open>d.get(k, default)\<close>.\<close>

definition get :: "pdict \<Rightarrow> string \<Rightarrow> pvalue" where
  "get d k = (case map_of d k of None \<Rightarrow> PNone | Some v \<Rightarrow> v)"

definition get_default :: "pdict \<Rightarrow> string \<Rightarrow> pvalue \<Rightarrow> pvalue" where
  "get_default d k dflt = (case map_of d k of None \<Rightarrow> dflt | Some v \<Rightarrow> v)"

text \<open>Python truthiness, as \<open>all([...])\<close>, \<open>or\<close> and \<open>if params\<close> use it.\<close>

fun truthy :: "pvalue \<Rightarrow> bool" where
  "truthy PNone = False"
| "truthy (PBool b) = b"
| "truthy (PNum r) = (r \<noteq> 0)"
| "truthy (PStr s) = (s \<noteq> [])"

section \<open>The circuit state (circuit.py, class Circuit)\<close>

text \<open>
  A component is the dictionary \<open>add_component\<close> builds: the keys \<open>name\<close>, \<open>type\<close>
  and \<open>nodes\<close> are always there, \<open>value\<close> and \<open>parameters\<close> only when the argument
  was not \<open>None\<close> (an absent key is \<open>None\<close> here).
\<close>

record component =
  comp_name :: string
  comp_type :: string
  comp_nodes :: "string list"
  comp_value :: "real option"
  comp_parameters :: "pdict option"

record history_entry =
  h_version :: int
  h_components :: "component list"

text \<open>
  The per-type counters \<open>_next_ids\<close> are a dictionary from type to the next number;
  they start at 1 and are only ever incremented, so they are naturals.
\<close>

record circuit =
  cid :: int
  cname :: string
  version :: int
  components :: "component list"
  history :: "history_entry list"
  next_ids :: "string \<rightharpoonup> nat"

definition initial_next_ids :: "string \<rightharpoonup> nat" where
  "initial_next_ids = map_of [(''R'', 1), (''C'', 1), (''L'', 1), (''V'', 1), (''I'', 1),
                              (''D'', 1), (''Q'', 1), (''M'', 1), (''X'', 1), (''U'', 1)]"

text \<open>\<open>__init__\<close>: \<open>name or f"Circuit {circuit_id}"\<close> replaces \<open>None\<close> and the empty string.\<close>

definition Circuit_init :: "int \<Rightarrow> string option \<Rightarrow> circuit" where
  "Circuit_init circuit_id nm =
     \<lparr> cid = circuit_id,
       cname = (case nm of None \<Rightarrow> ''Circuit '' @ str_int circuit_id
                | Some n \<Rightarrow> if n = [] then ''Circuit '' @ str_int circuit_id else n),
       version = 1,
       components = [],
       history = [],
       next_ids = initial_next_ids \<rparr>"

text \<open>\<open>_increment_version\<close>: optionally snapshot the live state, then bump the version.\<close>

definition increment_version :: "bool \<Rightarrow> circuit \<Rightarrow> circuit" where
  "increment_version save_components c =
     (let c1 = (if save_components
                then c\<lparr>history := history c @
                          [\<lparr>h_version = version c, h_components = components c\<rparr>]\<rparr>
                else c)
      in c1\<lparr>version := version c1 + 1\<rparr>)"

text \<open>
  \<open>add_component\<close>: uppercase the type, create its counter when it is not known,
  take the counter as the number of the name and advance it, append the record, bump
  the version. There is no check of the arguments and no \<open>raise\<close>.
\<close>

definition add_component ::
  "string \<Rightarrow> string list \<Rightarrow> real option \<Rightarrow> pdict option \<Rightarrow> circuit \<Rightarrow> component \<times> circuit" where
  "add_component component_type nodes val parameters c =
     (let ty = upper component_type;
          ids = (if next_ids c ty = None then (next_ids c)(ty \<mapsto> 1) else next_ids c);
          comp_id = (case ids ty of Some n \<Rightarrow> n | None \<Rightarrow> 1);
          ids' = ids(ty \<mapsto> comp_id + 1);
          component = \<lparr> comp_name = ty @ str_nat comp_id,
                   comp_type = ty,
                   comp_nodes = nodes,
                   comp_value = val,
                   comp_parameters = parameters \<rparr>;
          c1 = c\<lparr>next_ids := ids', components := components c @ [component]\<rparr>
      in (component, increment_version False c1))"

text \<open>
  \<open>remove_component\<close>: pop the first component with the given name and bump the
  version; when no component has the name, return \<open>False\<close> and change nothing.
\<close>

fun remove_first :: "string \<Rightarrow> component list \<Rightarrow> component list option" where
  "remove_first nm [] = None"
| "remove_first nm (x # xs) =
     (if comp_name x = nm then Some xs
      else (case remove_first nm xs of None \<Rightarrow> None | Some ys \<Rightarrow> Some (x # ys)))"

definition remove_component :: "string \<Rightarrow> circuit \<Rightarrow> bool \<times> circuit" where
  "remove_component component_name c =
     (case remove_first component_name (components c) of
        Some cs \<Rightarrow> (True, increment_version False (c\<lparr>components := cs\<rparr>))
      | None \<Rightarrow> (False, c))"

text \<open>
  An entry of \<open>new_components\<close>: the keys \<open>type\<close> and \<open>nodes\<close> are required
  (\<open>ComponentSchema\<close>), \<open>value\<close> and \<open>parameters\<close> are read with \<open>get\<close>.
\<close>

record component_spec =
  spec_type :: string
  spec_nodes :: "string list"
  spec_value :: "real option"
  spec_parameters :: "pdict option"

definition add_spec :: "component_spec \<Rightarrow> circuit \<Rightarrow> circuit" where
  "add_spec entry c =
     snd (add_component (spec_type entry) (spec_nodes entry) (spec_value entry)
            (spec_parameters entry) c)"

text \<open>
  \<open>update_components\<close>: snapshot and bump, clear the list, then add every entry with
  \<open>add_component\<close>.
\<close>

definition update_components :: "component_spec list \<Rightarrow> circuit \<Rightarrow> circuit" where
  "update_components new_components c =
     fold add_spec new_components ((increment_version True c)\<lparr>components := []\<rparr>)"

text \<open>\<open>to_dict\<close>: the persisted view of a circuit; history and counters are left out.\<close>

record circuit_dict =
  d_id :: int
  d_name :: string
  d_version :: int
  d_components :: "component list"

definition to_dict :: "circuit \<Rightarrow> circuit_dict" where
  "to_dict c = \<lparr> d_id = cid c, d_name = cname c, d_version = version c,
                 d_components = components c \<rparr>"

section \<open>Sequences of operations\<close>

text \<open>
  A caller's mutations of one circuit, in order. Running them records what each one did:
  the name \<open>add_component\<close> generated (with the stored type), and the name
  \<open>remove_component\<close> removed when it returned \<open>True\<close>.
\<close>

datatype operation =
    Add string "string list" "real option" "pdict option"
  | Remove string
  | Replace_all "component_spec list"
  | Rename string

datatype event = Added string string | Removed string

fun apply_operation :: "operation \<Rightarrow> circuit \<Rightarrow> event list \<times> circuit" where
  "apply_operation (Add t ns v p) c =
     (let (component, c') = add_component t ns v p c
      in ([Added (comp_type component) (comp_name component)], c'))"
| "apply_operation (Remove nm) c =
     (let (found, c') = remove_component nm c
      in (if found then [Removed nm] else [], c'))"
| "apply_operation (Replace_all new_components) c = ([], update_components new_components c)"
| "apply_operation (Rename nm) c = ([], c\<lparr>cname := nm\<rparr>)"

fun run :: "operation list \<Rightarrow> circuit \<Rightarrow> event list \<times> circuit" where
  "run [] c = ([], c)"
| "run (x # xs) c =
     (let (evs, c') = apply_operation x c; (evs', c'') = run xs c'
      in (evs @ evs', c''))"

text \<open>N calls of \<open>add_component\<close> with one type, each with its own other arguments.\<close>

definition add_many ::
  "string \<Rightarrow> (string list \<times> real option \<times> pdict option) list \<Rightarrow> circuit \<Rightarrow> circuit" where
  "add_many t args c = fold (\<lambda>(ns, v, p) c'. snd (add_component t ns v p c')) args c"

definition is_digit :: "char \<Rightarrow> bool" where
  "is_digit ch = (ch \<in> set ''0123456789'')"

text \<open>A type tag that does not end in a decimal digit, as the ten tags R, C, ... do not.\<close>

definition no_trailing_digit :: "string \<Rightarrow> bool" where
  "no_trailing_digit s = (s = [] \<or> \<not> is_digit (last s))"

text \<open>
  The operations of a plain editing session: additions whose (uppercased) type does not
  end in a digit, removals and renames.
\<close>

fun plain_op :: "operation \<Rightarrow> bool" where
  "plain_op (Add t ns v p) = no_trailing_digit (upper t)"
| "plain_op (Remove nm) = True"
| "plain_op (Replace_all new_components) = False"
| "plain_op (Rename nm) = True"

text \<open>
  A trace in which every generated name is new (not among the names \<open>S\<close> issued before
  it) and every removed name was issued before.
\<close>

fun fresh_trace :: "string set \<Rightarrow> event list \<Rightarrow> bool" where
  "fresh_trace S [] = True"
| "fresh_trace S (Added ty n # evs) = (n \<notin> S \<and> fresh_trace (insert n S) evs)"
| "fresh_trace S (Removed n # evs) = (n \<in> S \<and> fresh_trace S evs)"

text \<open>
  The invariant behind it: every issued name is a type without trailing digit followed
  by a number below that type's counter, and every live component carries an issued name.
\<close>

definition names_issued_ok :: "circuit \<Rightarrow> string set \<Rightarrow> bool" where
  "names_issued_ok c S =
     ((\<forall>n \<in> S. \<exists>ty k m. n = ty @ str_nat k \<and> no_trailing_digit ty \<and>
                          next_ids c ty = Some m \<and> k < m) \<and>
      comp_name ` set (components c) \<subseteq> S)"

section \<open>Netlist translation (the component loop of \<open>Circuit.simulate\<close>)\<close>

text \<open>
  A node handed to PySpice is the circuit's ground reference \<open>spice_circuit.gnd\<close> or
  the identifier as it is.
\<close>

datatype node = Gnd | Node string

definition normalize_node :: "string \<Rightarrow> node" where
  "normalize_node nd =
     (if nd \<noteq> [] \<and> lower nd \<in> set [''0'', ''gnd'', ''ground''] then Gnd else Node nd)"

text \<open>
  The behavioural expressions of the comparator, ADC and DAC, kept as their parts
  instead of the formatted string.
\<close>

datatype bexpr =
    Comparator_expr node node pvalue pvalue
  | Adc_expr node pvalue pvalue
  | Dac_expr node pvalue

text \<open>
  One call on \<open>spice_circuit\<close>, with its arguments in the order of the source. A
  quantity \<open>x @ u_...\<close> is kept as the operand \<open>x\<close>; the unit is the constructor's.
  PySpice's own checks of what it is handed are outside this model.
\<close>

datatype instr =
    Spice_R string node node pvalue
  | Spice_C string node node pvalue
  | Spice_L string node node pvalue
  | Spice_V string node node pvalue
  | Spice_SinusoidalVoltageSource string node node pvalue pvalue pvalue
  | Spice_PulseVoltageSource string node node pvalue pvalue pvalue pvalue pvalue pvalue pvalue
  | Spice_I string node node pvalue
  | Spice_model pvalue string pdict
  | Spice_D string node node pvalue
  | Spice_Q string node node node pvalue
  | Spice_VCVS string node node node node pvalue
  | Spice_B string node node bexpr

record spice_circuit =
  title :: string
  elements :: "instr list"

record op_output =
  op_nodes :: "(string \<times> real) list"
  op_branches :: "(string \<times> real) list"

record dc_output =
  dc_sweep :: "real list"
  dc_nodes :: "(string \<times> real list) list"
  dc_branches :: "(string \<times> real list) list"

record ac_output =
  ac_frequency :: "real list"
  ac_nodes :: "(string \<times> complex list) list"
  ac_branches :: "(string \<times> complex list) list"

record tr_output =
  tr_time :: "real list"
  tr_nodes :: "(string \<times> real list) list"
  tr_branches :: "(string \<times> real list) list"

text \<open>
  The exceptions of \<open>simulate\<close>: the \<open>ValueError\<close> the code raises itself, with its
  message, and an exception of any other class that PySpice raises and the code does not
  catch.
\<close>

datatype error = ValueError string | Raised string

text \<open>
  PySpice and ngspice are not part of the repository: they are a parameter. An analysis
  returns what the code then reads from it, or the message of the exception it (or
  reading its output) raised; \<open>hasattr_model\<close> is \<open>hasattr(spice_circuit, "model_" + name)\<close>.
  A call on \<open>spice_circuit\<close> whose arguments come from the component can raise inside
  PySpice (a missing value under \<open>@ u_...\<close>, a model declared twice, a source PySpice
  does not accept): \<open>element_error\<close> gives the message of the exception of such a call,
  made on the circuit built so far, and \<open>None\<close> when the call returns.
  \<open>new_instance\<close> is \<open>NgSpiceShared.new_instance(spice_circuit)\<close>: the exception it
  raises, or \<open>None\<close> when it returns a simulator.
\<close>

record pyspice =
  hasattr_model :: "spice_circuit \<Rightarrow> pvalue \<Rightarrow> bool"
  element_error :: "spice_circuit \<Rightarrow> instr \<Rightarrow> string option"
  new_instance :: "spice_circuit \<Rightarrow> error option"
  operating_point :: "spice_circuit \<Rightarrow> string + op_output"
  dc_analysis :: "spice_circuit \<Rightarrow> pvalue \<Rightarrow> pvalue \<Rightarrow> pvalue \<Rightarrow> pvalue \<Rightarrow> string + dc_output"
  ac_analysis :: "spice_circuit \<Rightarrow> pvalue \<Rightarrow> pvalue \<Rightarrow> pvalue \<Rightarrow> pvalue \<Rightarrow> string + ac_output"
  transient_analysis :: "spice_circuit \<Rightarrow> pvalue \<Rightarrow> pvalue \<Rightarrow> string + tr_output"

definition index_error :: string where
  "index_error = ''list index out of range''"

definition of_value :: "real option \<Rightarrow> pvalue" where
  "of_value v = (case v of None \<Rightarrow> PNone | Some r \<Rightarrow> PNum r)"

text \<open>\<open>value or d\<close>.\<close>

definition value_or :: "real option \<Rightarrow> real \<Rightarrow> pvalue" where
  "value_or v d = (if truthy (of_value v) then of_value v else PNum d)"

text \<open>\<open>2**bits\<close> is defined on numbers and booleans and raises \<open>TypeError\<close> otherwise.\<close>

fun pow2_error :: "pvalue \<Rightarrow> string option" where
  "pow2_error PNone =
     Some (''unsupported operand type(s) for ** or pow(): 'int' and 'NoneType'' @ [CHR 0x27])"
| "pow2_error (PStr s) =
     Some (''unsupported operand type(s) for ** or pow(): 'int' and 'str'' @ [CHR 0x27])"
| "pow2_error (PBool b) = None"
| "pow2_error (PNum r) = None"

text \<open>
  Making calls on \<open>spice_circuit\<close> one after the other: the first one PySpice refuses
  raises, and the ones before it are already part of the circuit.
\<close>

fun make_calls :: "pyspice \<Rightarrow> spice_circuit \<Rightarrow> instr list \<Rightarrow> string + instr list" where
  "make_calls env spice [] = Inr []"
| "make_calls env spice (i # rest) =
     (case element_error env spice i of
        Some msg \<Rightarrow> Inl msg
      | None \<Rightarrow>
          (case make_calls env (spice\<lparr>elements := elements spice @ [i]\<rparr>) rest of
             Inl msg \<Rightarrow> Inl msg
           | Inr made \<Rightarrow> Inr (i # made)))"

text \<open>
  The body of the \<open>try\<close> for one component: the calls it makes on \<open>spice_circuit\<close>,
  or the message of the exception it raises. Reading \<open>spice_nodes[i]\<close> beyond the list
  raises \<open>IndexError\<close> while the arguments of a call are evaluated, before PySpice
  sees the call; a diode's or transistor's model is declared before the nodes of the
  device are read. A type outside R, C, L, V, I, D, Q, U, an unknown \<open>uvx_type\<close>
  and an op-amp with fewer than three nodes emit nothing. The three calls of the op-amp
  take fresh names, the component's nodes, the constant 1e9 and the gain, and return.
\<close>

definition translate_component ::
  "pyspice \<Rightarrow> spice_circuit \<Rightarrow> component \<Rightarrow> string + instr list" where
  "translate_component env spice c =
     (let comp_type = comp_type c;
          val = comp_value c;
          params = (case comp_parameters c of None \<Rightarrow> [] | Some d \<Rightarrow> d);
          spice_nodes = map normalize_node (comp_nodes c);
          nm = comp_name c
      in
      if comp_type = ''R'' then
        (if length spice_nodes < 2 then Inl index_error
         else make_calls env spice [Spice_R nm (spice_nodes ! 0) (spice_nodes ! 1) (of_value val)])
      else if comp_type = ''C'' then
        (if length spice_nodes < 2 then Inl index_error
         else make_calls env spice [Spice_C nm (spice_nodes ! 0) (spice_nodes ! 1) (of_value val)])
      else if comp_type = ''L'' then
        (if length spice_nodes < 2 then Inl index_error
         else make_calls env spice [Spice_L nm (spice_nodes ! 0) (spice_nodes ! 1) (of_value val)])
      else if comp_type = ''V'' then
        (if params \<noteq> [] \<and> ''type'' \<in> fst ` set params then
           (if get params ''type'' = PStr ''sine'' then
              (if length spice_nodes < 2 then Inl index_error
               else make_calls env spice [Spice_SinusoidalVoltageSource nm (spice_nodes ! 0) (spice_nodes ! 1)
                           (get_default params ''amplitude'' (value_or val 1))
                           (get_default params ''frequency'' (PNum 1000))
                           (get_default params ''offset'' (PNum 0))])
            else if get params ''type'' = PStr ''pulse'' then
              (if length spice_nodes < 2 then Inl index_error
               else make_calls env spice [Spice_PulseVoltageSource nm (spice_nodes ! 0) (spice_nodes ! 1)
                           (get_default params ''initial'' (PNum 0))
                           (get_default params ''pulsed'' (value_or val 5))
                           (get_default params ''delay'' (PNum 0))
                           (get_default params ''rise_time'' (PNum (1 / 10 ^ 9)))
                           (get_default params ''fall_time'' (PNum (1 / 10 ^ 9)))
                           (get_default params ''pulse_width'' (PNum (1 / 10 ^ 3)))
                           (get_default params ''period'' (PNum (2 / 10 ^ 3)))])
            else
              (if length spice_nodes < 2 then Inl index_error
               else make_calls env spice [Spice_V nm (spice_nodes ! 0) (spice_nodes ! 1) (of_value val)]))
         else
           (if length spice_nodes < 2 then Inl index_error
            else make_calls env spice [Spice_V nm (spice_nodes ! 0) (spice_nodes ! 1) (of_value val)]))
      else if comp_type = ''I'' then
        (if length spice_nodes < 2 then Inl index_error
         else make_calls env spice [Spice_I nm (spice_nodes ! 0) (spice_nodes ! 1) (of_value val)])
      else if comp_type = ''D'' then
        (let model_name = get_default params ''model'' (PStr ''default_diode'');
             decl = (if \<not> hasattr_model env spice model_name
                     then [Spice_model model_name ''D''
                             [(''is_'', get_default params ''is'' (PNum (1 / 10 ^ 14))),
                              (''n'', get_default params ''n'' (PNum 1)),
                              (''vj'', get_default params ''vj'' (PNum 1))]]
                     else [])
         in case make_calls env spice decl of
              Inl msg \<Rightarrow> Inl msg
            | Inr declared \<Rightarrow>
                if length spice_nodes < 2 then Inl index_error
                else (case make_calls env (spice\<lparr>elements := elements spice @ declared\<rparr>)
                             [Spice_D nm (spice_nodes ! 0) (spice_nodes ! 1) model_name] of
                        Inl msg \<Rightarrow> Inl msg
                      | Inr made \<Rightarrow> Inr (declared @ made)))
      else if comp_type = ''Q'' then
        (let model_name = get_default params ''model'' (PStr ''default_npn'');
             decl = (if \<not> hasattr_model env spice model_name
                     then [Spice_model model_name ''NPN''
                             [(''bf'', get_default params ''bf'' (PNum 100))]]
                     else [])
         in case make_calls env spice decl of
              Inl msg \<Rightarrow> Inl msg
            | Inr declared \<Rightarrow>
                if length spice_nodes < 3 then Inl index_error
                else (case make_calls env (spice\<lparr>elements := elements spice @ declared\<rparr>)
                             [Spice_Q nm (spice_nodes ! 0) (spice_nodes ! 1) (spice_nodes ! 2)
                                model_name] of
                        Inl msg \<Rightarrow> Inl msg
                      | Inr made \<Rightarrow> Inr (declared @ made)))
      else if comp_type = ''U'' then
        (let uvx_type = get_default params ''uvx_type'' (PStr ''opamp'') in
         if uvx_type = PStr ''opamp'' then
           (let gain = get_default params ''gain'' (PNum (10 ^ 6)) in
            if length spice_nodes \<ge> 3 then
              (let int_node1 = ''int_'' @ nm @ ''_1'';
                   int_node2 = ''int_'' @ nm @ ''_2''
               in Inr [Spice_R (nm @ ''_in_p'') (spice_nodes ! 2) (Node int_node1) (PNum (10 ^ 9)),
                       Spice_R (nm @ ''_in_n'') (spice_nodes ! 1) (Node int_node2) (PNum (10 ^ 9)),
                       Spice_VCVS nm (spice_nodes ! 0) Gnd (Node int_node1) (Node int_node2) gain])
            else Inr [])
         else if uvx_type = PStr ''comparator'' then
           (if length spice_nodes < 3 then Inl index_error
            else make_calls env spice [Spice_B nm (spice_nodes ! 0) Gnd
                        (Comparator_expr (spice_nodes ! 2) (spice_nodes ! 1)
                           (get_default params ''high'' (PNum 5))
                           (get_default params ''low'' (PNum 0)))])
         else if uvx_type = PStr ''adc'' then
           (let bits = get_default params ''bits'' (PNum 8);
                ref = get_default params ''reference'' (PNum 5)
            in if length spice_nodes < 2 then Inl index_error
               else (case pow2_error bits of
                       Some msg \<Rightarrow> Inl msg
                     | None \<Rightarrow> make_calls env spice [Spice_B nm (spice_nodes ! 0) Gnd
                                       (Adc_expr (spice_nodes ! 1) bits ref)]))
         else if uvx_type = PStr ''dac'' then
           (let ref = get_default params ''reference'' (PNum 5)
            in if length spice_nodes < 2 then Inl index_error
               else make_calls env spice [Spice_B nm (spice_nodes ! 0) Gnd (Dac_expr (spice_nodes ! 1) ref)])
         else Inr [])
      else Inr [])"

text \<open>
  The loop over \<open>self.components\<close>: an exception of a component is re-raised as
  \<open>ValueError\<close> with the component's name, and ends the call.
\<close>

fun add_components :: "pyspice \<Rightarrow> component list \<Rightarrow> spice_circuit \<Rightarrow> error + spice_circuit" where
  "add_components env [] spice = Inr spice"
| "add_components env (c # cs) spice =
     (case translate_component env spice c of
        Inl msg \<Rightarrow> Inl (ValueError (''Error adding component '' @ comp_name c @ '': '' @ msg))
      | Inr els \<Rightarrow> add_components env cs (spice\<lparr>elements := elements spice @ els\<rparr>))"

section \<open>Analysis dispatch and result normalisation (the rest of \<open>Circuit.simulate\<close>)\<close>

text \<open>The result dictionary, as nested JSON-like values.\<close>

datatype jv = JNum real | JVal pvalue | JList "jv list" | JDict "(string \<times> jv) list"

text \<open>\<open>math.atan2\<close> and \<open>math.degrees\<close> on reals (rounding is not modelled).\<close>

definition atan2 :: "real \<Rightarrow> real \<Rightarrow> real" where
  "atan2 y x =
     (if x > 0 then arctan (y / x)
      else if x < 0 then (if y \<ge> 0 then arctan (y / x) + pi else arctan (y / x) - pi)
      else if y > 0 then pi / 2
      else if y < 0 then - pi / 2
      else 0)"

definition degrees :: "real \<Rightarrow> real" where
  "degrees x = x * (180 / pi)"

text \<open>
  \<open>d = {}; for k, v in items: if k not in ("0", "gnd"): d[k] = f(v)\<close>, the loop that
  collects node values; branches are collected by the same loop without the test.
\<close>

definition collect_nodes :: "('a \<Rightarrow> jv) \<Rightarrow> (string \<times> 'a) list \<Rightarrow> (string \<times> jv) list" where
  "collect_nodes f items =
     fold (\<lambda>(node_name, v) d.
             if node_name \<notin> set [''0'', ''gnd''] then AList.update node_name (f v) d else d)
          items []"

definition collect_branches :: "('a \<Rightarrow> jv) \<Rightarrow> (string \<times> 'a) list \<Rightarrow> (string \<times> jv) list" where
  "collect_branches f items =
     fold (\<lambda>(branch_name, v) d. AList.update branch_name (f v) d) items []"

definition floats :: "real list \<Rightarrow> jv" where
  "floats xs = JList (map JNum xs)"

definition magnitude_phase :: "complex list \<Rightarrow> jv" where
  "magnitude_phase vs =
     JDict [(''magnitude'', JList (map (\<lambda>v. JNum (cmod v)) vs)),
            (''phase'', JList (map (\<lambda>v. JNum (degrees (atan2 (Im v) (Re v)))) vs))]"

definition dc_required :: string where
  "dc_required = ''DC analysis requires 'source', 'start', 'stop', 'step' parameters''"

definition transient_required :: string where
  "transient_required = ''Transient analysis requires 'step_time' and 'end_time' parameters''"

text \<open>
  The body of the second \<open>try\<close>, on the lowercased analysis name: the result
  dictionary, or the message of the exception raised in it (by the code's own
  \<open>raise ValueError\<close> or by the solver).
\<close>

definition run_analysis ::
  "pyspice \<Rightarrow> spice_circuit \<Rightarrow> string \<Rightarrow> pdict \<Rightarrow> string + (string \<times> jv) list" where
  "run_analysis env spice analysis sim_params =
     (if analysis = ''operating_point'' then
        (case operating_point env spice of
           Inl msg \<Rightarrow> Inl msg
         | Inr out \<Rightarrow> Inr [(''nodes'', JDict (collect_nodes JNum (op_nodes out))),
                           (''branches'', JDict (collect_branches JNum (op_branches out)))])
      else if analysis = ''dc'' then
        (let source = get sim_params ''source'';
             start = get sim_params ''start'';
             stop = get sim_params ''stop'';
             step = get sim_params ''step''
         in if \<not> (truthy source \<and> start \<noteq> PNone \<and> stop \<noteq> PNone \<and> step \<noteq> PNone)
            then Inl dc_required
            else (case dc_analysis env spice source start stop step of
                    Inl msg \<Rightarrow> Inl msg
                  | Inr out \<Rightarrow>
                      Inr [(''sweep'', JDict [(''source'', JVal source),
                                              (''values'', floats (dc_sweep out))]),
                           (''nodes'', JDict (collect_nodes floats (dc_nodes out))),
                           (''branches'', JDict (collect_branches floats (dc_branches out)))]))
      else if analysis = ''ac'' then
        (let start_freq = get_default sim_params ''start_frequency'' (PNum 1);
             stop_freq = get_default sim_params ''stop_frequency'' (PNum (10 ^ 6));
             num_points = get_default sim_params ''points'' (PNum 10);
             variation = get_default sim_params ''variation'' (PStr ''dec'')
         in (case ac_analysis env spice start_freq stop_freq num_points variation of
               Inl msg \<Rightarrow> Inl msg
             | Inr out \<Rightarrow>
                 Inr [(''frequency'', JDict [(''values'', floats (ac_frequency out))]),
                      (''nodes'', JDict (collect_nodes magnitude_phase (ac_nodes out))),
                      (''branches'', JDict (collect_branches magnitude_phase (ac_branches out)))]))
      else if analysis = ''transient'' then
        (let step_time = get sim_params ''step_time'';
             end_time = get sim_params ''end_time''
         in if step_time = PNone \<or> end_time = PNone
            then Inl transient_required
            else (case transient_analysis env spice step_time end_time of
                    Inl msg \<Rightarrow> Inl msg
                  | Inr out \<Rightarrow>
                      Inr [(''time'', floats (tr_time out)),
                           (''nodes'', JDict (collect_nodes floats (tr_nodes out))),
                           (''branches'', JDict (collect_branches floats (tr_branches out)))]))
      else Inl (''Unsupported analysis type: '' @ analysis))"

text \<open>
  \<open>simulate\<close>, in state-passing style: the outcome and the circuit after the call.
  The method reads \<open>self.name\<close> and \<open>self.components\<close> and assigns to no attribute of
  \<open>self\<close>. The simulator object is created between the two \<open>try\<close> blocks, after
  the components are translated and before the analysis kind and its parameters are
  looked at: an exception of \<open>NgSpiceShared.new_instance\<close> leaves the method as it
  is. Every exception inside the second \<open>try\<close>, the code's own validation
  \<open>ValueError\<close> included, is re-raised as \<open>ValueError("Simulation failed: ...")\<close>.
\<close>

definition simulate ::
  "pyspice \<Rightarrow> string \<Rightarrow> pdict option \<Rightarrow> circuit \<Rightarrow> (error + (string \<times> jv) list) \<times> circuit" where
  "simulate env analysis sim_params c =
     (let sim_params = (case sim_params of None \<Rightarrow> [] | Some d \<Rightarrow> d);
          spice0 = \<lparr> title = cname c, elements = [] \<rparr>
      in case add_components env (components c) spice0 of
           Inl e \<Rightarrow> (Inl e, c)
         | Inr spice \<Rightarrow>
             (case new_instance env spice of
                Some e \<Rightarrow> (Inl e, c)
              | None \<Rightarrow>
                  (case run_analysis env spice (lower analysis) sim_params of
                     Inl msg \<Rightarrow> (Inl (ValueError (''Simulation failed: '' @ msg)), c)
                   | Inr results \<Rightarrow> (Inr results, c))))"

text \<open>
  A solver for the concrete instances below: it knows no model, accepts every call,
  creates its simulator, fails on every analysis but the AC one, and answers the AC
  analysis with one frequency point, the nodes \<open>out\<close> and \<open>0\<close> and the branch
  \<open>v1\<close>. The second one differs in that creating its simulator raises, as a PySpice
  that cannot load ngspice does.
\<close>

definition stub_solver :: pyspice where
  "stub_solver =
     \<lparr> hasattr_model = (\<lambda>spice model_name. False),
       element_error = (\<lambda>spice call. None),
       new_instance = (\<lambda>spice. None),
       operating_point = (\<lambda>spice. Inl ''no solver''),
       dc_analysis = (\<lambda>spice source start stop step. Inl ''no solver''),
       ac_analysis = (\<lambda>spice start_freq stop_freq num_points variation.
          Inr \<lparr> ac_frequency = [1],
                ac_nodes = [(''out'', [Complex 0 1]), (''0'', [0])],
                ac_branches = [(''v1'', [Complex 3 4])] \<rparr>),
       transient_analysis = (\<lambda>spice step_time end_time. Inl ''no solver'') \<rparr>"


section \<open>The registry and its persistence (manager.py, class CircuitManager)\<close>

text \<open>
  \<open>_circuits\<close> is a dictionary from id to circuit, kept in insertion order. The
  persisted form is the dictionary \<open>_save_to_disk\<close> hands to \<open>json.dump\<close> and
  \<open>_load_from_disk\<close> gets back from \<open>json.load\<close>: JSON writes the integer keys as
  strings and \<open>int(cid_str)\<close> reads them back, so the keys stay integers here.
\<close>

record registry =
  reg_circuits :: "(int \<times> circuit) list"
  reg_next_id :: int

record persisted =
  p_next_id :: int
  p_circuits :: "(int \<times> circuit_dict) list"

definition save_to_disk :: "registry \<Rightarrow> persisted" where
  "save_to_disk reg =
     \<lparr> p_next_id = reg_next_id reg,
       p_circuits = fold (\<lambda>(k, circuit) d. AList.update k (to_dict circuit) d)
                      (reg_circuits reg) [] \<rparr>"

text \<open>
  One circuit of \<open>_load_from_disk\<close>: construct it, set its version, then add every
  saved component with \<open>add_component\<close>.
\<close>

definition load_circuit :: "int \<Rightarrow> circuit_dict \<Rightarrow> circuit" where
  "load_circuit circuit_id circuit_data =
     fold (\<lambda>entry circuit.
             snd (add_component (comp_type entry) (comp_nodes entry) (comp_value entry)
                    (comp_parameters entry) circuit))
          (d_components circuit_data)
          ((Circuit_init circuit_id (Some (d_name circuit_data)))\<lparr>version := d_version circuit_data\<rparr>)"

definition load_from_disk :: "persisted \<Rightarrow> registry" where
  "load_from_disk data =
     \<lparr> reg_circuits = fold (\<lambda>(k, circuit_data) d.
                               AList.update k (load_circuit k circuit_data) d)
                         (p_circuits data) [],
       reg_next_id = p_next_id data \<rparr>"

section \<open>Basic facts about the state operations\<close>

lemma version_add_component:
  "version (snd (add_component t ns v p c)) = version c + 1"
  by (simp add: add_component_def increment_version_def Let_def)

lemma history_add_component:
  "history (snd (add_component t ns v p c)) = history c"
  by (simp add: add_component_def increment_version_def Let_def)

lemma components_add_component:
  "components (snd (add_component t ns v p c)) = components c @ [fst (add_component t ns v p c)]"
  by (simp add: add_component_def increment_version_def Let_def)

lemma version_add_spec: "version (add_spec s c) = version c + 1"
  by (simp add: add_spec_def version_add_component)

lemma version_fold_add_spec:
  "version (fold add_spec xs c) = version c + int (length xs)"
  by (induction xs arbitrary: c) (simp_all add: version_add_spec)


lemma str_nat_1: "str_nat (Suc 0) = ''1''"
  by (simp add: str_nat.simps digit_char_def)

lemma remove_first_None_iff:
  "remove_first nm xs = None \<longleftrightarrow> nm \<notin> comp_name ` set xs"
  by (induction xs) (auto split: option.splits)

lemma version_update_components:
  "version (update_components new c) = version c + 1 + int (length new)"
  by (simp add: update_components_def version_fold_add_spec increment_version_def Let_def)

section \<open>Claims about the state operations\<close>

text \<open>
  C10. \<open>add_component\<close> accepts any type string, not only the ten tags of the initial
  counter table: the type is uppercased; when the uppercased type has no counter yet,
  one is created at 1, the component is committed under the name type + "1" (the
  arguments stored as given), the counter is left at 2 and the version is bumped. No
  error is possible: the result is always a component and a circuit.
\<close>

theorem add_component_unknown_type:
  assumes "upper t \<notin> dom (next_ids c)"
  shows "add_component t ns v p c =
           (\<lparr> comp_name = upper t @ ''1'', comp_type = upper t, comp_nodes = ns,
              comp_value = v, comp_parameters = p \<rparr>,
            c\<lparr> next_ids := (next_ids c)(upper t \<mapsto> 2),
               components := components c @
                 [\<lparr> comp_name = upper t @ ''1'', comp_type = upper t, comp_nodes = ns,
                    comp_value = v, comp_parameters = p \<rparr>],
               version := version c + 1 \<rparr>)"
proof -
  have "next_ids c (upper t) = None" using assms by (simp add: domIff)
  then show ?thesis
    by (simp add: add_component_def increment_version_def Let_def str_nat_1 numeral_2_eq_2)
qed

theorem add_component_unknown_type_witness:
  "upper ''zener'' \<notin> dom (next_ids (Circuit_init 1 None)) \<and>
   fst (add_component ''zener'' [''a'', ''b''] None None (Circuit_init 1 None)) =
     \<lparr> comp_name = ''ZENER1'', comp_type = ''ZENER'', comp_nodes = [''a'', ''b''],
        comp_value = None, comp_parameters = None \<rparr>"
proof -
  have u: "upper ''zener'' = ''ZENER''"
    by (simp add: upper_def upper_char_def ascii_lowercase_def ascii_uppercase_def)
  have h: "upper ''zener'' \<notin> dom (next_ids (Circuit_init 1 None))"
    by (simp add: u Circuit_init_def initial_next_ids_def dom_def)
  show ?thesis
    using h add_component_unknown_type [OF h, of "[''a'', ''b'']" None None]
    by (simp add: u)
qed

lemma upper_R: "upper ''R'' = ''R''"
  by (simp add: upper_def upper_char_def ascii_lowercase_def ascii_uppercase_def)

lemma initial_R: "initial_next_ids ''R'' = Some (Suc 0)"
  by (simp add: initial_next_ids_def)

text \<open>
  C1 (as amended). \<open>add_component\<close> validates nothing and rejects nothing: for every type,
  node list (empty or of any length) and value (given or absent) the call commits. It
  returns the component named type + counter, appends it to the components, advances
  the counter of its type by one and the version by one, and leaves the history as it
  was. No add is rejected, so no rejected add changes the circuit.
\<close>

theorem add_component_always_commits:
  "add_component t ns v p c =
     (let ty = upper t;
          n = (case next_ids c ty of None \<Rightarrow> 1 | Some k \<Rightarrow> k);
          component = \<lparr> comp_name = ty @ str_nat n, comp_type = ty, comp_nodes = ns,
                        comp_value = v, comp_parameters = p \<rparr>
      in (component,
          c\<lparr> next_ids := (next_ids c)(ty \<mapsto> n + 1),
             components := components c @ [component],
             version := version c + 1 \<rparr>))
   \<and> history (snd (add_component t ns v p c)) = history c"
  by (auto simp add: add_component_def increment_version_def Let_def split: option.splits)

text \<open>
  The claim C1 as stated fails: an add with an empty node list and no value is accepted,
  and the circuit after the call differs from the circuit before.
\<close>

theorem add_component_empty_nodes_counterexample:
  "snd (add_component ''R'' [] None None (Circuit_init 1 None)) \<noteq> Circuit_init 1 None \<and>
   components (snd (add_component ''R'' [] None None (Circuit_init 1 None))) =
     [\<lparr> comp_name = ''R1'', comp_type = ''R'', comp_nodes = [], comp_value = None,
        comp_parameters = None \<rparr>] \<and>
   version (snd (add_component ''R'' [] None None (Circuit_init 1 None))) = 2 \<and>
   next_ids (snd (add_component ''R'' [] None None (Circuit_init 1 None))) ''R'' = Some 2 \<and>
   next_ids (Circuit_init 1 None) ''R'' = Some 1"
  by (simp add: add_component_def increment_version_def Let_def Circuit_init_def upper_R
        initial_R str_nat_1 circuit.ext_inject dom_def)

theorem add_component_always_commits_witness:
  "fst (add_component ''R'' [] None None (Circuit_init 1 None)) =
     \<lparr> comp_name = ''R1'', comp_type = ''R'', comp_nodes = [], comp_value = None,
        comp_parameters = None \<rparr> \<and>
   history (snd (add_component ''R'' [] None None (Circuit_init 1 None))) = []"
  using add_component_always_commits [of "''R''" "[]" None None "Circuit_init 1 None"]
  by (simp add: Let_def upper_R Circuit_init_def initial_R str_nat_1)

lemma fst_remove_component:
  "fst (remove_component nm c) \<longleftrightarrow> nm \<in> comp_name ` set (components c)"
  using remove_first_None_iff [of nm "components c"]
  by (auto simp add: remove_component_def split: option.splits)

lemma version_remove_component:
  "version (snd (remove_component nm c)) =
     (if nm \<in> comp_name ` set (components c) then version c + 1 else version c)"
  using remove_first_None_iff [of nm "components c"]
  by (auto simp add: remove_component_def increment_version_def Let_def split: option.splits)

lemma remove_component_not_found:
  "nm \<notin> comp_name ` set (components c) \<Longrightarrow> remove_component nm c = (False, c)"
  using remove_first_None_iff [of nm "components c"]
  by (auto simp add: remove_component_def split: option.splits)

lemma snd_apply_operation:
  "snd (apply_operation x c) =
     (case x of Add t ns v p \<Rightarrow> snd (add_component t ns v p c)
      | Remove nm \<Rightarrow> snd (remove_component nm c)
      | Replace_all new \<Rightarrow> update_components new c
      | Rename nm \<Rightarrow> c\<lparr>cname := nm\<rparr>)"
  by (cases x) (simp_all add: split_beta)

lemma version_apply_operation:
  "version c \<le> version (snd (apply_operation x c))"
  by (simp add: snd_apply_operation version_add_component version_remove_component
        version_update_components split: operation.splits)

lemma snd_run_Cons: "snd (run (x # xs) c) = snd (run xs (snd (apply_operation x c)))"
  by (simp add: split_beta)

lemma version_run: "version c \<le> version (snd (run ops c))"
proof (induction ops arbitrary: c)
  case Nil
  show ?case by simp
next
  case (Cons x xs)
  have "version c \<le> version (snd (apply_operation x c))"
    by (rule version_apply_operation)
  also have "\<dots> \<le> version (snd (run xs (snd (apply_operation x c))))"
    by (rule Cons.IH)
  finally show ?case by (simp only: snd_run_Cons)
qed


text \<open>
  C3. The version never decreases over any sequence of operations (adds, removals, bulk
  replacements, renames). \<open>add_component\<close> increases it by exactly 1.
  \<open>remove_component\<close> increases it by exactly 1 when it removes a component (it
  returns \<open>True\<close> exactly when a component has the name), and on a name that no
  component has it returns \<open>False\<close> and leaves the circuit, and so the version,
  unchanged (Scenario 6). \<open>update_components\<close> (replace_all) increases it by exactly
  1 + len(new_components).
\<close>

theorem version_monotonicity:
  "version (snd (add_component t ns v p c)) = version c + 1 \<and>
   (fst (remove_component nm c) \<longleftrightarrow> nm \<in> comp_name ` set (components c)) \<and>
   (fst (remove_component nm c) \<longrightarrow> version (snd (remove_component nm c)) = version c + 1) \<and>
   (\<not> fst (remove_component nm c) \<longrightarrow> snd (remove_component nm c) = c) \<and>
   version (update_components new c) = version c + 1 + int (length new) \<and>
   version c \<le> version (snd (run ops c))"
  using remove_component_not_found [of nm c]
  by (simp add: version_add_component fst_remove_component version_remove_component
        version_update_components version_run)

theorem version_monotonicity_witness:
  "fst (remove_component ''R1'' (snd (add_component ''R'' [''1'', ''2''] (Some 1000) None
                                        (Circuit_init 1 None)))) \<and>
   version (snd (remove_component ''R1'' (snd (add_component ''R'' [''1'', ''2''] (Some 1000) None
                                        (Circuit_init 1 None))))) = 3 \<and>
   \<not> fst (remove_component ''X1'' (snd (add_component ''R'' [''1'', ''2''] (Some 1000) None
                                        (Circuit_init 1 None)))) \<and>
   version (snd (remove_component ''X1'' (snd (add_component ''R'' [''1'', ''2''] (Some 1000) None
                                        (Circuit_init 1 None))))) = 2 \<and>
   version (update_components
              [\<lparr> spec_type = ''C'', spec_nodes = [''1'', ''0''], spec_value = Some (1 / 10 ^ 6),
                 spec_parameters = None \<rparr>]
              (snd (add_component ''R'' [''1'', ''2''] (Some 1000) None (Circuit_init 1 None)))) = 4"
proof -
  let ?c1 = "snd (add_component ''R'' [''1'', ''2''] (Some 1000) None (Circuit_init 1 None))"
  have v1: "version ?c1 = 2"
    by (simp add: version_add_component Circuit_init_def)
  have n1: "comp_name ` set (components ?c1) = {''R1''}"
    by (simp add: add_component_def increment_version_def Let_def Circuit_init_def upper_R
          initial_R str_nat_1 dom_def)
  show ?thesis
    using version_monotonicity [where c = ?c1 and nm = "''R1''" and t = "''R''" and ns = "[]"
            and v = None and p = None and new = "[]" and ops = "[]"]
          version_monotonicity [where c = ?c1 and nm = "''X1''" and t = "''R''" and ns = "[]"
            and v = None and p = None and ops = "[]" and new =
            "[\<lparr> spec_type = ''C'', spec_nodes = [''1'', ''0''], spec_value = Some (1 / 10 ^ 6),
                spec_parameters = None \<rparr>]"]
    by (simp add: v1 n1)
qed

section \<open>Claims about netlist translation and simulation\<close>

lemma lower_char_g: "lower_char ch = CHR ''g'' \<longleftrightarrow> ch = CHR ''g'' \<or> ch = upper_char CHR ''g''"
  by (simp add: lower_char_def upper_char_def ascii_lowercase_def ascii_uppercase_def split: option.splits)
lemma lower_char_n: "lower_char ch = CHR ''n'' \<longleftrightarrow> ch = CHR ''n'' \<or> ch = upper_char CHR ''n''"
  by (simp add: lower_char_def upper_char_def ascii_lowercase_def ascii_uppercase_def split: option.splits)
lemma lower_char_d: "lower_char ch = CHR ''d'' \<longleftrightarrow> ch = CHR ''d'' \<or> ch = upper_char CHR ''d''"
  by (simp add: lower_char_def upper_char_def ascii_lowercase_def ascii_uppercase_def split: option.splits)
lemma lower_char_r: "lower_char ch = CHR ''r'' \<longleftrightarrow> ch = CHR ''r'' \<or> ch = upper_char CHR ''r''"
  by (simp add: lower_char_def upper_char_def ascii_lowercase_def ascii_uppercase_def split: option.splits)
lemma lower_char_o: "lower_char ch = CHR ''o'' \<longleftrightarrow> ch = CHR ''o'' \<or> ch = upper_char CHR ''o''"
  by (simp add: lower_char_def upper_char_def ascii_lowercase_def ascii_uppercase_def split: option.splits)
lemma lower_char_u: "lower_char ch = CHR ''u'' \<longleftrightarrow> ch = CHR ''u'' \<or> ch = upper_char CHR ''u''"
  by (simp add: lower_char_def upper_char_def ascii_lowercase_def ascii_uppercase_def split: option.splits)
lemma lower_char_0: "lower_char ch = CHR ''0'' \<longleftrightarrow> ch = CHR ''0'' \<or> ch = upper_char CHR ''0''"
  by (simp add: lower_char_def upper_char_def ascii_lowercase_def ascii_uppercase_def split: option.splits)

lemmas lower_char_iffs = lower_char_g lower_char_n lower_char_d lower_char_r lower_char_o
  lower_char_u lower_char_0

lemma lower_eq_0: "lower nd = ''0'' \<longleftrightarrow> list_all2 (\<lambda>a b. a = b \<or> a = upper_char b) nd ''0''"
  by (simp add: lower_def map_eq_Cons_conv list_all2_Cons2 lower_char_iffs)

lemma lower_eq_gnd: "lower nd = ''gnd'' \<longleftrightarrow> list_all2 (\<lambda>a b. a = b \<or> a = upper_char b) nd ''gnd''"
  by (simp add: lower_def map_eq_Cons_conv list_all2_Cons2 lower_char_iffs)

lemma lower_eq_ground:
  "lower nd = ''ground'' \<longleftrightarrow> list_all2 (\<lambda>a b. a = b \<or> a = upper_char b) nd ''ground''"
  by (simp add: lower_def map_eq_Cons_conv list_all2_Cons2 lower_char_iffs)


lemma lower_Nil_not_ground: "lower [] \<notin> set [''0'', ''gnd'', ''ground'']"
  by (simp add: lower_def)

text \<open>
  C7. Every node identifier whose lowercase form is "0", "gnd" or "ground" is mapped by
  \<open>normalize_node\<close> to the one ground reference; every other identifier passes
  through unchanged. The identifiers mapped to ground are exactly the spellings of
  "0", "gnd" and "ground" in any mixture of letter cases (each character is the
  lowercase letter or its uppercase form).
\<close>

theorem normalize_node_ground:
  "(lower nd \<in> {''0'', ''gnd'', ''ground''} \<longrightarrow> normalize_node nd = Gnd) \<and>
   (lower nd \<notin> {''0'', ''gnd'', ''ground''} \<longrightarrow> normalize_node nd = Node nd) \<and>
   (normalize_node nd = Gnd \<longleftrightarrow>
      list_all2 (\<lambda>a b. a = b \<or> a = upper_char b) nd ''0'' \<or>
      list_all2 (\<lambda>a b. a = b \<or> a = upper_char b) nd ''gnd'' \<or>
      list_all2 (\<lambda>a b. a = b \<or> a = upper_char b) nd ''ground'')"
proof -
  have ne: "lower nd \<in> {''0'', ''gnd'', ''ground''} \<Longrightarrow> nd \<noteq> []"
    by (auto simp add: lower_def)
  have a: "lower nd \<in> {''0'', ''gnd'', ''ground''} \<Longrightarrow> normalize_node nd = Gnd"
    using ne by (simp add: normalize_node_def)
  have b: "lower nd \<notin> {''0'', ''gnd'', ''ground''} \<Longrightarrow> normalize_node nd = Node nd"
    by (simp add: normalize_node_def)
  have c: "normalize_node nd = Gnd \<longleftrightarrow> lower nd \<in> {''0'', ''gnd'', ''ground''}"
    using a b by (cases "lower nd \<in> {''0'', ''gnd'', ''ground''}") simp_all
  have d: "lower nd \<in> {''0'', ''gnd'', ''ground''} \<longleftrightarrow>
      list_all2 (\<lambda>a b. a = b \<or> a = upper_char b) nd ''0'' \<or>
      list_all2 (\<lambda>a b. a = b \<or> a = upper_char b) nd ''gnd'' \<or>
      list_all2 (\<lambda>a b. a = b \<or> a = upper_char b) nd ''ground''"
    using lower_eq_0 [of nd] lower_eq_gnd [of nd] lower_eq_ground [of nd] by blast
  show ?thesis using a b c d by blast
qed

theorem normalize_node_ground_witness:
  "normalize_node ''0'' = Gnd \<and> normalize_node ''gnd'' = Gnd \<and> normalize_node ''GND'' = Gnd \<and>
   normalize_node ''Ground'' = Gnd \<and> normalize_node ''out'' = Node ''out'' \<and>
   normalize_node ''1'' = Node ''1'' \<and> lower ''GND'' \<in> {''0'', ''gnd'', ''ground''} \<and>
   lower ''out'' \<notin> {''0'', ''gnd'', ''ground''}"
proof -
  have l: "lower ''0'' = ''0''" "lower ''gnd'' = ''gnd''" "lower ''GND'' = ''gnd''"
    "lower ''Ground'' = ''ground''" "lower ''out'' = ''out''" "lower ''1'' = ''1''"
    by (simp_all add: lower_def lower_char_def ascii_lowercase_def ascii_uppercase_def)
  show ?thesis
    using normalize_node_ground [of "''0''"] normalize_node_ground [of "''gnd''"]
      normalize_node_ground [of "''GND''"] normalize_node_ground [of "''Ground''"]
      normalize_node_ground [of "''out''"] normalize_node_ground [of "''1''"]
    by (simp add: l)
qed

text \<open>
  C9. \<open>simulate\<close> is read-only: for every solver, analysis kind and parameters, and
  whether the call returns a result or raises, the circuit after the call (components,
  version, history, counters, id and name) is the circuit before it.
\<close>

theorem simulate_read_only:
  "snd (simulate env analysis sim_params c) = c"
  by (simp add: simulate_def Let_def split: sum.splits option.splits)

theorem simulate_read_only_witness:
  "snd (simulate stub_solver ''ac'' None
          (snd (add_component ''R'' [''out'', ''0''] (Some 1000) None (Circuit_init 1 None)))) =
   snd (add_component ''R'' [''out'', ''0''] (Some 1000) None (Circuit_init 1 None)) \<and>
   snd (simulate stub_solver ''noise'' None (Circuit_init 1 None)) = Circuit_init 1 None"
  using simulate_read_only [of stub_solver "''ac''" None
          "snd (add_component ''R'' [''out'', ''0''] (Some 1000) None (Circuit_init 1 None))"]
        simulate_read_only [of stub_solver "''noise''" None "Circuit_init 1 None"]
  by simp

text \<open>
  C6. A U component whose parameters have \<open>uvx_type = "opamp"\<close> and that has at least
  three nodes (out, in-, in+) translates without error to exactly three instructions:
  a 1 G\<Omega> resistor from in+ (node 2) to the first synthesized internal node, a
  1 G\<Omega> resistor from in- (node 1) to the second one, and one voltage-controlled
  voltage source driving the output (node 0) against ground from the internal node
  pair, with gain \<open>parameters.gain\<close>, 10^6 when absent.
\<close>

theorem opamp_translation:
  assumes "comp_type c = ''U''"
    and "comp_parameters c = Some params"
    and "map_of params ''uvx_type'' = Some (PStr ''opamp'')"
    and "3 \<le> length (comp_nodes c)"
  shows "translate_component env spice c =
           Inr [Spice_R (comp_name c @ ''_in_p'') (normalize_node (comp_nodes c ! 2))
                  (Node (''int_'' @ comp_name c @ ''_1'')) (PNum (10 ^ 9)),
                Spice_R (comp_name c @ ''_in_n'') (normalize_node (comp_nodes c ! 1))
                  (Node (''int_'' @ comp_name c @ ''_2'')) (PNum (10 ^ 9)),
                Spice_VCVS (comp_name c) (normalize_node (comp_nodes c ! 0)) Gnd
                  (Node (''int_'' @ comp_name c @ ''_1'')) (Node (''int_'' @ comp_name c @ ''_2''))
                  (get_default params ''gain'' (PNum (10 ^ 6)))]"
proof -
  have n0: "0 < length (comp_nodes c)" using assms(4) by arith
  have n1: "1 < length (comp_nodes c)" using assms(4) by arith
  have n2: "2 < length (comp_nodes c)" using assms(4) by arith
  show ?thesis
    using assms n0 n1 n2
    by (simp add: translate_component_def Let_def get_default_def del: length_greater_0_conv)
qed

theorem opamp_translation_witness:
  "translate_component stub_solver \<lparr> title = ''t'', elements = [] \<rparr>
     \<lparr> comp_name = ''U1'', comp_type = ''U'', comp_nodes = [''out'', ''in-'', ''in+''],
        comp_value = None, comp_parameters = Some [(''uvx_type'', PStr ''opamp'')] \<rparr> =
   Inr [Spice_R ''U1_in_p'' (Node ''in+'') (Node ''int_U1_1'') (PNum 1000000000),
        Spice_R ''U1_in_n'' (Node ''in-'') (Node ''int_U1_2'') (PNum 1000000000),
        Spice_VCVS ''U1'' (Node ''out'') Gnd (Node ''int_U1_1'') (Node ''int_U1_2'')
          (PNum 1000000)]"
proof -
  have l: "lower ''out'' = ''out''" "lower ''in-'' = ''in-''" "lower ''in+'' = ''in+''"
    by (simp_all add: lower_def lower_char_def ascii_lowercase_def ascii_uppercase_def)
  show ?thesis
    using opamp_translation [of
        "\<lparr> comp_name = ''U1'', comp_type = ''U'', comp_nodes = [''out'', ''in-'', ''in+''],
           comp_value = None, comp_parameters = Some [(''uvx_type'', PStr ''opamp'')] \<rparr>"
        "[(''uvx_type'', PStr ''opamp'')]" stub_solver "\<lparr> title = ''t'', elements = [] \<rparr>"]
    by (simp add: normalize_node_def l get_default_def)
qed











lemma c1_eval:
  "snd (add_component ''R'' [''1'', ''0''] (Some 1000) None (Circuit_init 1 None)) =
   \<lparr> cid = 1, cname = ''Circuit 1'', version = 2,
     components = [\<lparr> comp_name = ''R1'', comp_type = ''R'', comp_nodes = [''1'', ''0''],
                     comp_value = Some 1000, comp_parameters = None \<rparr>],
     history = [], next_ids = initial_next_ids(''R'' \<mapsto> 2) \<rparr>"
  by (simp add: add_component_def increment_version_def Let_def Circuit_init_def upper_R
        initial_R str_nat_1 dom_def str_int_def numeral_2_eq_2)








lemma map_of_fold_update:
  "map_of (fold (\<lambda>(k, v) d. if Q k then AList.update k (f v) d else d) items acc) x =
     (case map_of (rev items) x of
        None \<Rightarrow> map_of acc x
      | Some v \<Rightarrow> if Q x then Some (f v) else map_of acc x)"
proof (induction items arbitrary: acc)
  case Nil
  show ?case by simp
next
  case (Cons a items)
  obtain k v where a: "a = (k, v)" by (cases a)
  show ?case
    by (simp add: a Cons.IH map_of_append update_conv' map_add_def split: option.splits)
qed

lemma map_of_collect_nodes:
  "map_of (collect_nodes f items) x =
     (if x \<in> {''0'', ''gnd''} then None else map_option f (map_of (rev items) x))"
  using map_of_fold_update [where Q = "\<lambda>k. k \<notin> set [''0'', ''gnd'']" and f = f
          and items = items and acc = "[]" and x = x]
  by (auto simp add: collect_nodes_def split: option.splits)

lemma map_of_rev_distinct:
  "distinct (map fst items) \<Longrightarrow> (x, v) \<in> set items \<Longrightarrow> map_of (rev items) x = Some v"
  by (rule map_of_is_SomeI) (simp_all add: rev_map [symmetric])

lemma keys_collect_nodes:
  "fst ` set (collect_nodes f items) = fst ` set items - {''0'', ''gnd''}"
proof -
  have "fst ` set (collect_nodes f items) = dom (map_of (collect_nodes f items))"
    by (simp add: dom_map_of_conv_image_fst)
  also have "\<dots> = {x. x \<notin> {''0'', ''gnd''} \<and> x \<in> fst ` set items}"
  proof -
    have "dom (map_of (rev items)) = fst ` set items"
      by (simp add: dom_map_of_conv_image_fst)
    then have "\<And>x. (map_of (rev items) x \<noteq> None) = (x \<in> fst ` set items)"
      by (metis domIff)
    then show ?thesis
      by (auto simp add: dom_def map_of_collect_nodes)
  qed
  finally show ?thesis by auto
qed

text \<open>
  C5 (as amended). In the result of an AC analysis, every node the solver reports whose
  name is not exactly "0" or "gnd" maps to a record with the keys \<open>magnitude\<close> and
  \<open>phase\<close>: for the complex values v of the node, the magnitude entries are |v| and
  the phase entries are atan2(imag v, real v) in degrees. The nodes named "0" and "gnd"
  are left out, and no other node is. (There is a result when the components translate,
  the simulator is created and the solver returns; the solver's nodes are the items of
  a dictionary, so their names are distinct.)
\<close>

theorem ac_result_magnitude_phase:
  assumes "lower analysis = ''ac''"
    and "P = (case sim_params of None \<Rightarrow> [] | Some d \<Rightarrow> d)"
    and "add_components env (components c) \<lparr>title = cname c, elements = []\<rparr> = Inr spice"
    and "new_instance env spice = None"
    and "ac_analysis env spice (get_default P ''start_frequency'' (PNum 1))
           (get_default P ''stop_frequency'' (PNum (10 ^ 6))) (get_default P ''points'' (PNum 10))
           (get_default P ''variation'' (PStr ''dec'')) = Inr out"
    and "distinct (map fst (ac_nodes out))"
  shows "fst (simulate env analysis sim_params c) =
           Inr [(''frequency'', JDict [(''values'', JList (map JNum (ac_frequency out)))]),
                (''nodes'', JDict (collect_nodes magnitude_phase (ac_nodes out))),
                (''branches'', JDict (collect_branches magnitude_phase (ac_branches out)))] \<and>
         (\<forall>name vs. (name, vs) \<in> set (ac_nodes out) \<and> name \<notin> {''0'', ''gnd''} \<longrightarrow>
            map_of (collect_nodes magnitude_phase (ac_nodes out)) name =
              Some (JDict [(''magnitude'', JList (map (\<lambda>v. JNum (cmod v)) vs)),
                           (''phase'', JList (map (\<lambda>v. JNum (degrees (atan2 (Im v) (Re v)))) vs))])) \<and>
         fst ` set (collect_nodes magnitude_phase (ac_nodes out)) =
           fst ` set (ac_nodes out) - {''0'', ''gnd''}"
proof -
  have r: "fst (simulate env analysis sim_params c) =
           Inr [(''frequency'', JDict [(''values'', JList (map JNum (ac_frequency out)))]),
                (''nodes'', JDict (collect_nodes magnitude_phase (ac_nodes out))),
                (''branches'', JDict (collect_branches magnitude_phase (ac_branches out)))]"
    using assms(1-5) by (simp add: simulate_def run_analysis_def Let_def floats_def)
  have n: "map_of (collect_nodes magnitude_phase (ac_nodes out)) name =
              Some (JDict [(''magnitude'', JList (map (\<lambda>v. JNum (cmod v)) vs)),
                           (''phase'', JList (map (\<lambda>v. JNum (degrees (atan2 (Im v) (Re v)))) vs))])"
    if "(name, vs) \<in> set (ac_nodes out)" "name \<notin> {''0'', ''gnd''}" for name vs
    using that map_of_rev_distinct [OF assms(6) that(1)]
    by (simp add: map_of_collect_nodes magnitude_phase_def)
  show ?thesis using r n keys_collect_nodes [of magnitude_phase "ac_nodes out"] by blast
qed

lemma lower_ac: "lower ''ac'' = ''ac''"
  by (simp add: lower_def lower_char_def ascii_lowercase_def ascii_uppercase_def)

lemma degrees_atan2_1_0: "degrees (atan2 1 0) = 90"
  by (simp add: degrees_def atan2_def)

lemma stub_ac_eval:
  "fst (simulate stub_solver ''ac'' None (Circuit_init 1 None)) =
     Inr [(''frequency'', JDict [(''values'', JList [JNum 1])]),
          (''nodes'', JDict [(''out'', JDict [(''magnitude'', JList [JNum 1]),
                                              (''phase'', JList [JNum 90])])]),
          (''branches'', JDict [(''v1'', JDict [(''magnitude'', JList [JNum 5]),
                                                (''phase'', JList [JNum (degrees (atan2 4 3))])])])]"
  by (simp add: simulate_def run_analysis_def Let_def floats_def Circuit_init_def lower_ac
        stub_solver_def get_default_def collect_nodes_def collect_branches_def
        magnitude_phase_def degrees_atan2_1_0 cmod_def)

text \<open>
  The claim C5 as stated fails on the key: the record of a node has the key \<open>phase\<close>,
  and no key \<open>phase_degrees\<close>.
\<close>

theorem ac_result_phase_degrees_counterexample:
  "fst (simulate stub_solver ''ac'' None (Circuit_init 1 None)) =
     Inr [(''frequency'', JDict [(''values'', JList [JNum 1])]),
          (''nodes'', JDict [(''out'', JDict [(''magnitude'', JList [JNum 1]),
                                              (''phase'', JList [JNum 90])])]),
          (''branches'', JDict [(''v1'', JDict [(''magnitude'', JList [JNum 5]),
                                                (''phase'', JList [JNum (degrees (atan2 4 3))])])])] \<and>
   map_of [(''magnitude'', JList [JNum 1]), (''phase'', JList [JNum 90])] ''phase_degrees'' = None \<and>
   map_of [(''magnitude'', JList [JNum 1]), (''phase'', JList [JNum 90])] ''phase'' =
     Some (JList [JNum 90])"
  by (simp add: stub_ac_eval)

theorem ac_result_magnitude_phase_witness:
  "map_of (collect_nodes magnitude_phase [(''out'', [Complex 0 1]), (''0'', [0])]) ''out'' =
     Some (JDict [(''magnitude'', JList [JNum 1]), (''phase'', JList [JNum 90])]) \<and>
   fst ` set (collect_nodes magnitude_phase [(''out'', [Complex 0 1]), (''0'', [0])]) = {''out''}"
proof -
  let ?out = "\<lparr> ac_frequency = [1], ac_nodes = [(''out'', [Complex 0 1]), (''0'', [0])],
                ac_branches = [(''v1'', [Complex 3 4])] \<rparr>"
  have h: "add_components stub_solver (components (Circuit_init 1 None))
             \<lparr>title = cname (Circuit_init 1 None), elements = []\<rparr> =
           Inr \<lparr>title = cname (Circuit_init 1 None), elements = []\<rparr>"
    by (simp add: Circuit_init_def)
  have a: "ac_analysis stub_solver \<lparr>title = cname (Circuit_init 1 None), elements = []\<rparr>
             (get_default [] ''start_frequency'' (PNum 1))
             (get_default [] ''stop_frequency'' (PNum (10 ^ 6))) (get_default [] ''points'' (PNum 10))
             (get_default [] ''variation'' (PStr ''dec'')) = Inr ?out"
    by (simp add: stub_solver_def)
  have d: "distinct (map fst (ac_nodes ?out))" by simp
  have P: "[] = (case (None :: pdict option) of None \<Rightarrow> [] | Some d \<Rightarrow> d)" by simp
  have i: "new_instance stub_solver \<lparr>title = cname (Circuit_init 1 None), elements = []\<rparr> = None"
    by (simp add: stub_solver_def)
  show ?thesis
    using ac_result_magnitude_phase [OF lower_ac P h i a d]
    by (auto simp add: degrees_atan2_1_0 cmod_def)
qed

section \<open>Persistence round trip\<close>

lemma version_fold_add:
  "version (fold (\<lambda>entry circuit.
             snd (add_component (comp_type entry) (comp_nodes entry) (comp_value entry)
                    (comp_parameters entry) circuit)) xs c) = version c + int (length xs)"
  by (induction xs arbitrary: c) (simp_all add: version_add_component)

lemma version_load_circuit:
  "version (load_circuit k (to_dict c)) = version c + int (length (components c))"
  by (simp add: load_circuit_def to_dict_def version_fold_add)

lemma upper_R_eval: "upper ''R'' = ''R''"
  by (simp add: upper_def upper_char_def ascii_lowercase_def ascii_uppercase_def)

lemma str_nat_2: "str_nat (Suc (Suc 0)) = ''2''"
  by (simp add: str_nat.simps digit_char_def)

lemma c1b_eval:
  "snd (add_component ''R'' [''2'', ''0''] (Some 2000) None
        (snd (add_component ''R'' [''1'', ''0''] (Some 1000) None (Circuit_init 1 None)))) =
   \<lparr> cid = 1, cname = ''Circuit 1'', version = 3,
     components = [\<lparr> comp_name = ''R1'', comp_type = ''R'', comp_nodes = [''1'', ''0''],
                     comp_value = Some 1000, comp_parameters = None \<rparr>,
                   \<lparr> comp_name = ''R2'', comp_type = ''R'', comp_nodes = [''2'', ''0''],
                     comp_value = Some 2000, comp_parameters = None \<rparr>],
     history = [], next_ids = initial_next_ids(''R'' \<mapsto> 3) \<rparr>"
  unfolding c1_eval
  by (simp add: add_component_def increment_version_def Let_def
        upper_R_eval str_nat_2 dom_def numeral_2_eq_2 numeral_3_eq_3)

lemma c2_eval:
  "snd (remove_component ''R1''
     (snd (add_component ''R'' [''2'', ''0''] (Some 2000) None
        (snd (add_component ''R'' [''1'', ''0''] (Some 1000) None (Circuit_init 1 None)))))) =
   \<lparr> cid = 1, cname = ''Circuit 1'', version = 4,
     components = [\<lparr> comp_name = ''R2'', comp_type = ''R'', comp_nodes = [''2'', ''0''],
                     comp_value = Some 2000, comp_parameters = None \<rparr>],
     history = [], next_ids = initial_next_ids(''R'' \<mapsto> 3) \<rparr>"
  unfolding c1b_eval
  by (simp add: remove_component_def increment_version_def Let_def)

lemma str_int_1: "str_int 1 = ''1''"
  by (simp add: str_int_def str_nat_1)

lemma reload_c1:
  "map (\<lambda>(k, c). (k, cname c, version c, map comp_name (components c)))
     (reg_circuits (load_from_disk (save_to_disk
        \<lparr> reg_circuits =
            [(1, snd (add_component ''R'' [''1'', ''0''] (Some 1000) None (Circuit_init 1 None)))],
          reg_next_id = 2 \<rparr>))) = [(1, ''Circuit 1'', 3, [''R1''])]"
  unfolding c1_eval
  by (simp add: save_to_disk_def load_from_disk_def
        load_circuit_def to_dict_def add_component_def increment_version_def Let_def
        Circuit_init_def upper_R_eval initial_R str_nat_1 dom_def str_int_1)

lemma reload_c2:
  "map (\<lambda>(k, c). (k, cname c, version c, map comp_name (components c)))
     (reg_circuits (load_from_disk (save_to_disk
        \<lparr> reg_circuits =
            [(1, snd (remove_component ''R1''
                   (snd (add_component ''R'' [''2'', ''0''] (Some 2000) None
                      (snd (add_component ''R'' [''1'', ''0''] (Some 1000) None
                         (Circuit_init 1 None)))))))],
          reg_next_id = 2 \<rparr>))) = [(1, ''Circuit 1'', 5, [''R1''])]"
  unfolding c2_eval
  by (simp add: save_to_disk_def load_from_disk_def
        load_circuit_def to_dict_def add_component_def increment_version_def Let_def
        Circuit_init_def upper_R_eval initial_R str_nat_1 dom_def str_int_1)

lemma version_c1:
  "version (snd (add_component ''R'' [''1'', ''0''] (Some 1000) None (Circuit_init 1 None))) = 2"
  by (simp add: version_add_component Circuit_init_def)

text \<open>
  C4, on the code: a saved circuit does not come back as it was. \<open>_load_from_disk\<close>
  sets the saved version and then re-adds every component with \<open>add_component\<close>,
  which bumps the version once per component and names the components from fresh
  counters: the reloaded version is the saved one plus the number of components (a
  circuit saved at version 2 with one component reloads at version 3), and a circuit
  whose only component is R2 reloads with a component named R1.
\<close>

theorem load_from_disk_drift:
  "version (load_circuit k (to_dict c)) = version c + int (length (components c)) \<and>
   version (snd (add_component ''R'' [''1'', ''0''] (Some 1000) None (Circuit_init 1 None))) = 2 \<and>
   map (\<lambda>(k, c). (k, cname c, version c, map comp_name (components c)))
     (reg_circuits (load_from_disk (save_to_disk
        \<lparr> reg_circuits =
            [(1, snd (add_component ''R'' [''1'', ''0''] (Some 1000) None (Circuit_init 1 None)))],
          reg_next_id = 2 \<rparr>))) = [(1, ''Circuit 1'', 3, [''R1''])] \<and>
   map comp_name (components (snd (remove_component ''R1''
                   (snd (add_component ''R'' [''2'', ''0''] (Some 2000) None
                      (snd (add_component ''R'' [''1'', ''0''] (Some 1000) None
                         (Circuit_init 1 None)))))))) = [''R2''] \<and>
   map (\<lambda>(k, c). (k, cname c, version c, map comp_name (components c)))
     (reg_circuits (load_from_disk (save_to_disk
        \<lparr> reg_circuits =
            [(1, snd (remove_component ''R1''
                   (snd (add_component ''R'' [''2'', ''0''] (Some 2000) None
                      (snd (add_component ''R'' [''1'', ''0''] (Some 1000) None
                         (Circuit_init 1 None)))))))],
          reg_next_id = 2 \<rparr>))) = [(1, ''Circuit 1'', 5, [''R1''])]"
  using version_load_circuit [of k c] version_c1 reload_c1 reload_c2
  by (simp only: c2_eval) simp

section \<open>Generated names\<close>

lemma str_nat_nonempty: "str_nat n \<noteq> []"
  by (subst str_nat.simps) simp

lemma lt10_cases:
  "d < (10::nat) \<Longrightarrow> d = 0 \<or> d = 1 \<or> d = 2 \<or> d = 3 \<or> d = 4 \<or> d = 5 \<or> d = 6 \<or> d = 7 \<or> d = 8 \<or> d = 9"
  by arith

lemma digit_char_is_digit: "d < 10 \<Longrightarrow> is_digit (digit_char d)"
  using lt10_cases [of d] by (auto simp add: is_digit_def digit_char_def)

lemma digit_char_inj: "a < 10 \<Longrightarrow> b < 10 \<Longrightarrow> digit_char a = digit_char b \<Longrightarrow> a = b"
proof -
  assume a: "a < 10" and b: "b < 10" and e: "digit_char a = digit_char b"
  have d: "distinct ''0123456789''" by simp
  have l: "length ''0123456789'' = 10" by simp
  show "a = b"
    using nth_eq_iff_index_eq [OF d, of a b] a b e l by (simp add: digit_char_def)
qed

lemma str_nat_digits: "\<forall>ch \<in> set (str_nat n). is_digit ch"
proof (induction n rule: str_nat.induct)
  case (1 n)
  show ?case
  proof (cases "n < 10")
    case True
    then show ?thesis by (subst str_nat.simps) (simp add: digit_char_is_digit)
  next
    case False
    have "n mod 10 < 10" by simp
    then have "is_digit (digit_char (n mod 10))" by (rule digit_char_is_digit)
    then show ?thesis using 1 False by (subst str_nat.simps) simp
  qed
qed

lemma str_nat_inj: "str_nat n = str_nat m \<Longrightarrow> n = m"
proof (induction n arbitrary: m rule: str_nat.induct)
  case (1 n)
  show ?case
  proof (cases "n < 10")
    case n: True
    show ?thesis
    proof (cases "m < 10")
      case True
      have "[digit_char n] = [digit_char m]"
        using "1.prems" n True by (simp add: str_nat.simps [of n] str_nat.simps [of m])
      then show ?thesis using digit_char_inj [OF n True] by simp
    next
      case False
      have "[digit_char n] = str_nat (m div 10) @ [digit_char (m mod 10)]"
        using "1.prems" n False by (simp add: str_nat.simps [of n] str_nat.simps [of m])
      then show ?thesis using str_nat_nonempty [of "m div 10"] by simp
    qed
  next
    case n: False
    show ?thesis
    proof (cases "m < 10")
      case True
      have "str_nat (n div 10) @ [digit_char (n mod 10)] = [digit_char m]"
        using "1.prems" n True by (simp add: str_nat.simps [of n] str_nat.simps [of m])
      then show ?thesis using str_nat_nonempty [of "n div 10"] by simp
    next
      case False
      have e: "str_nat (n div 10) @ [digit_char (n mod 10)] =
               str_nat (m div 10) @ [digit_char (m mod 10)]"
        using "1.prems" n False by (simp add: str_nat.simps [of n] str_nat.simps [of m])
      then have "str_nat (n div 10) = str_nat (m div 10)" by simp
      then have d: "n div 10 = m div 10" using "1.IH" [OF n] by simp
      have "digit_char (n mod 10) = digit_char (m mod 10)" using e by simp
      then have r: "n mod 10 = m mod 10"
        using digit_char_inj [of "n mod 10" "m mod 10"] by simp
      show ?thesis using d r by (metis div_mult_mod_eq)
    qed
  qed
qed

lemma name_split_unique:
  assumes "no_trailing_digit t" "no_trailing_digit t'"
    and "t @ str_nat k = t' @ str_nat k'"
  shows "t = t' \<and> k = k'"
proof -
  have key: "a = b"
    if h1: "no_trailing_digit a" and h2: "a @ x = b @ y" and h3: "\<forall>ch \<in> set y. is_digit ch"
      and h4: "length b \<le> length a" for a b x y :: string
  proof -
    have "b = take (length b) a" using h2 h4 by (metis append_eq_append_conv_if append_eq_conv_conj)
    then have us: "a = b @ drop (length b) a" by (metis append_take_drop_id)
    define us where "us = drop (length b) a"
    have a: "a = b @ us" using us by (simp add: us_def)
    have y: "us @ x = y" using h2 a by (metis append.assoc same_append_eq)
    show ?thesis
    proof (cases "us = []")
      case True
      then show ?thesis using a by simp
    next
      case False
      then have "last a = last us" using a by simp
      moreover have "last us \<in> set y" using False y by auto
      ultimately have "is_digit (last a)" using h3 by simp
      moreover have "a \<noteq> []" using False a by simp
      ultimately show ?thesis using h1 by (simp add: no_trailing_digit_def)
    qed
  qed
  have "t = t'"
  proof (cases "length t' \<le> length t")
    case True
    show ?thesis using key [OF assms(1) assms(3) str_nat_digits True] .
  next
    case False
    then have "length t \<le> length t'" by simp
    then show ?thesis using key [OF assms(2) assms(3) [symmetric] str_nat_digits] by simp
  qed
  then show ?thesis using assms(3) str_nat_inj by simp
qed


lemma add_component_unfold:
  "add_component t ns v p c =
     (\<lparr> comp_name = upper t @ str_nat (case next_ids c (upper t) of None \<Rightarrow> 1 | Some k \<Rightarrow> k),
        comp_type = upper t, comp_nodes = ns, comp_value = v, comp_parameters = p \<rparr>,
      c\<lparr> next_ids := (next_ids c)(upper t \<mapsto>
             Suc (case next_ids c (upper t) of None \<Rightarrow> 1 | Some k \<Rightarrow> k)),
         components := components c @
           [\<lparr> comp_name = upper t @ str_nat (case next_ids c (upper t) of None \<Rightarrow> 1 | Some k \<Rightarrow> k),
              comp_type = upper t, comp_nodes = ns, comp_value = v, comp_parameters = p \<rparr>],
         version := version c + 1 \<rparr>)"
  by (auto simp add: add_component_def increment_version_def Let_def split: option.splits)

lemma names_issued_ok_add:
  assumes inv: "names_issued_ok c S" and ntd: "no_trailing_digit (upper t)"
  shows "comp_name (fst (add_component t ns v p c)) \<notin> S \<and>
         names_issued_ok (snd (add_component t ns v p c))
           (insert (comp_name (fst (add_component t ns v p c))) S)"
proof -
  define ty where "ty = upper t"
  define k0 where "k0 = (case next_ids c ty of None \<Rightarrow> 1 | Some k \<Rightarrow> k)"
  define nm where "nm = ty @ str_nat k0"
  have f: "comp_name (fst (add_component t ns v p c)) = nm"
    by (simp add: add_component_unfold nm_def k0_def ty_def)
  have ids: "next_ids (snd (add_component t ns v p c)) = (next_ids c)(ty \<mapsto> Suc k0)"
    by (simp add: add_component_unfold k0_def ty_def)
  have comps: "comp_name ` set (components (snd (add_component t ns v p c))) =
               insert nm (comp_name ` set (components c))"
    by (simp add: add_component_unfold nm_def k0_def ty_def)
  have old: "\<exists>ty' k m. n = ty' @ str_nat k \<and> no_trailing_digit ty' \<and>
                        next_ids c ty' = Some m \<and> k < m" if "n \<in> S" for n
    using inv that unfolding names_issued_ok_def by blast
  have fresh: "nm \<notin> S"
  proof
    assume "nm \<in> S"
    then obtain ty' k m where o: "nm = ty' @ str_nat k" "no_trailing_digit ty'"
        "next_ids c ty' = Some m" "k < m"
      using old by blast
    have "ty = ty' \<and> k0 = k"
      using name_split_unique [of ty ty' k0 k] ntd o(1,2) by (simp add: nm_def ty_def)
    then show False using o(3,4) by (auto simp add: k0_def)
  qed
  have new: "\<exists>ty' k m. n = ty' @ str_nat k \<and> no_trailing_digit ty' \<and>
                  ((next_ids c)(ty \<mapsto> Suc k0)) ty' = Some m \<and> k < m"
    if "n \<in> insert nm S" for n
  proof (cases "n = nm")
    case True
    have "nm = ty @ str_nat k0 \<and> no_trailing_digit ty \<and>
          ((next_ids c)(ty \<mapsto> Suc k0)) ty = Some (Suc k0) \<and> k0 < Suc k0"
      using ntd by (simp add: nm_def ty_def)
    then show ?thesis using True by blast
  next
    case False
    then have "n \<in> S" using that by simp
    then obtain ty' k m where o: "n = ty' @ str_nat k" "no_trailing_digit ty'"
        "next_ids c ty' = Some m" "k < m"
      using old by blast
    show ?thesis
    proof (cases "ty' = ty")
      case True
      then have "k0 = m" using o(3) by (simp add: k0_def)
      then have "n = ty' @ str_nat k \<and> no_trailing_digit ty' \<and>
          ((next_ids c)(ty \<mapsto> Suc k0)) ty' = Some (Suc k0) \<and> k < Suc k0"
        using o True by simp
      then show ?thesis by blast
    next
      case False
      then have "n = ty' @ str_nat k \<and> no_trailing_digit ty' \<and>
          ((next_ids c)(ty \<mapsto> Suc k0)) ty' = Some m \<and> k < m"
        using o by simp
      then show ?thesis by blast
    qed
  qed
  have sub: "comp_name ` set (components c) \<subseteq> S"
    using inv unfolding names_issued_ok_def by blast
  have "names_issued_ok (snd (add_component t ns v p c)) (insert nm S)"
    unfolding names_issued_ok_def ids comps using new sub by blast
  then show ?thesis using fresh f by simp
qed

lemma remove_first_subset: "remove_first n xs = Some ys \<Longrightarrow> set ys \<subseteq> set xs"
  by (induction xs arbitrary: ys) (auto split: if_splits option.splits)

lemma next_ids_remove_component: "next_ids (snd (remove_component n c)) = next_ids c"
  by (simp add: remove_component_def increment_version_def Let_def split: option.splits)

lemma components_remove_component:
  "set (components (snd (remove_component n c))) \<subseteq> set (components c)"
  using remove_first_subset [of n "components c"]
  by (auto simp add: remove_component_def increment_version_def Let_def split: option.splits)

lemma names_issued_ok_remove:
  assumes "names_issued_ok c S"
  shows "names_issued_ok (snd (remove_component n c)) S \<and> (fst (remove_component n c) \<longrightarrow> n \<in> S)"
proof -
  have "fst (remove_component n c) \<Longrightarrow> n \<in> S"
    using assms fst_remove_component [of n c] unfolding names_issued_ok_def by blast
  moreover have "names_issued_ok (snd (remove_component n c)) S"
    using assms components_remove_component [of n c]
    unfolding names_issued_ok_def next_ids_remove_component by blast
  ultimately show ?thesis by blast
qed

lemma names_issued_ok_rename: "names_issued_ok (c\<lparr>cname := nm\<rparr>) S = names_issued_ok c S"
  by (simp add: names_issued_ok_def)

lemma fst_run_Cons:
  "fst (run (x # xs) c) = fst (apply_operation x c) @ fst (run xs (snd (apply_operation x c)))"
  by (simp add: split_beta)

lemma run_fresh_trace:
  "names_issued_ok c S \<Longrightarrow> list_all plain_op ops \<Longrightarrow> fresh_trace S (fst (run ops c))"
proof (induction ops arbitrary: c S)
  case Nil
  show ?case by simp
next
  case (Cons x xs)
  have rest: "list_all plain_op xs" using Cons.prems(2) by simp
  show ?case
  proof (cases x)
    case (Add t ns v p)
    have ntd: "no_trailing_digit (upper t)" using Cons.prems(2) Add by simp
    let ?r = "add_component t ns v p c"
    have a: "comp_name (fst ?r) \<notin> S"
      and b: "names_issued_ok (snd ?r) (insert (comp_name (fst ?r)) S)"
      using names_issued_ok_add [OF Cons.prems(1) ntd, of ns v p] by simp_all
    have "fresh_trace (insert (comp_name (fst ?r)) S) (fst (run xs (snd ?r)))"
      using Cons.IH [OF b rest] .
    then show ?thesis using a by (simp add: fst_run_Cons Add split_beta del: run.simps)
  next
    case (Remove n)
    let ?r = "remove_component n c"
    have a: "names_issued_ok (snd ?r) S" and b: "fst ?r \<Longrightarrow> n \<in> S"
      using names_issued_ok_remove [OF Cons.prems(1), of n] by simp_all
    have "fresh_trace S (fst (run xs (snd ?r)))" using Cons.IH [OF a rest] .
    then show ?thesis using b by (simp add: fst_run_Cons Remove split_beta del: run.simps)
  next
    case (Replace_all new)
    then show ?thesis using Cons.prems(2) by simp
  next
    case (Rename nm)
    have "names_issued_ok (c\<lparr>cname := nm\<rparr>) S"
      using Cons.prems(1) by (simp add: names_issued_ok_rename)
    then have "fresh_trace S (fst (run xs (c\<lparr>cname := nm\<rparr>)))" using Cons.IH rest by blast
    then show ?thesis by (simp add: fst_run_Cons Rename del: run.simps)
  qed
qed

lemma fresh_trace_issued: "fresh_trace S evs \<Longrightarrow> n \<in> S \<Longrightarrow> Added ty n \<notin> set evs"
proof (induction evs arbitrary: S)
  case Nil
  show ?case by simp
next
  case (Cons e evs)
  show ?case
  proof (cases e)
    case (Added ty' n')
    then show ?thesis using Cons.prems Cons.IH [of "insert n' S"] by auto
  next
    case (Removed n')
    then show ?thesis using Cons.prems Cons.IH [of S] by auto
  qed
qed

lemma fresh_trace_no_reuse: "fresh_trace S (xs @ Removed n # ys) \<Longrightarrow> Added ty n \<notin> set ys"
proof (induction xs arbitrary: S)
  case Nil
  then show ?case using fresh_trace_issued [of S ys n ty] by simp
next
  case (Cons e xs)
  show ?case
  proof (cases e)
    case (Added ty' n')
    then show ?thesis using Cons.prems Cons.IH [of "insert n' S"] by simp
  next
    case (Removed n')
    then show ?thesis using Cons.prems Cons.IH [of S] by simp
  qed
qed

lemma names_issued_ok_init: "names_issued_ok (Circuit_init i nm) {}"
  by (simp add: names_issued_ok_def Circuit_init_def)


lemma initial_next_number:
  "(case initial_next_ids s of None \<Rightarrow> 1 | Some k \<Rightarrow> k) = Suc 0"
  by (simp add: initial_next_ids_def)

lemma add_many_names:
  "(case next_ids c (upper t) of None \<Rightarrow> 1 | Some k \<Rightarrow> k) = k0 \<Longrightarrow>
   map comp_name (components (add_many t args c)) =
     map comp_name (components c) @ map (\<lambda>j. upper t @ str_nat j) [k0 ..< k0 + length args]"
proof (induction args arbitrary: c k0)
  case Nil
  show ?case by (simp add: add_many_def)
next
  case (Cons a args)
  obtain ns v p where a: "a = (ns, v, p)" by (cases a)
  let ?c' = "snd (add_component t ns v p c)"
  have step: "add_many t (a # args) c = add_many t args ?c'"
    by (simp add: add_many_def a)
  have nxt: "(case next_ids ?c' (upper t) of None \<Rightarrow> 1 | Some k \<Rightarrow> k) = Suc k0"
    using Cons.prems by (simp add: add_component_unfold)
  have comps: "map comp_name (components ?c') =
               map comp_name (components c) @ [upper t @ str_nat k0]"
    using Cons.prems by (simp add: add_component_unfold)
  have "[k0 ..< k0 + length (a # args)] = k0 # [Suc k0 ..< Suc k0 + length args]"
    by (subst upt_rec) simp
  then show ?case
    using Cons.IH [OF nxt] by (simp add: step comps)
qed

text \<open>
  C2 (as amended). On a freshly constructed circuit, N calls of \<open>add_component\<close> with
  type T generate the names U1, U2, ..., UN in insertion order, where U is T uppercased
  (the stored type; T itself when T has no lowercase letter). \<open>remove_component\<close>
  never changes a per-type counter. In every sequence of additions, removals and
  renames on a fresh circuit in which no added type ends in a decimal digit (as none of
  the tags R, C, L, V, I, D, Q, M, X, U does), no addition after a removal generates
  the name of the removed component.
\<close>

theorem generated_names:
  "map comp_name (components (add_many t args (Circuit_init i nm))) =
     map (\<lambda>j. upper t @ str_nat j) [1 ..< Suc (length args)] \<and>
   next_ids (snd (remove_component n c)) = next_ids c \<and>
   (list_all plain_op ops \<and> fst (run ops (Circuit_init i nm)) = xs @ Removed n # ys
      \<longrightarrow> Added ty n \<notin> set ys)"
proof -
  have a: "map comp_name (components (add_many t args (Circuit_init i nm))) =
     map (\<lambda>j. upper t @ str_nat j) [1 ..< Suc (length args)]"
    using add_many_names [of "Circuit_init i nm" t "Suc 0" args]
    by (simp add: Circuit_init_def initial_next_number)
  have b: "Added ty n \<notin> set ys"
    if "list_all plain_op ops" "fst (run ops (Circuit_init i nm)) = xs @ Removed n # ys"
    using run_fresh_trace [OF names_issued_ok_init that(1), of i nm] that(2)
      fresh_trace_no_reuse [of "{}" xs n ys ty]
    by simp
  show ?thesis using a b next_ids_remove_component by blast
qed


lemma upper_evals: "upper ''R'' = ''R''" "upper ''r'' = ''R''" "upper ''R1'' = ''R1''"
  by (simp_all add: upper_def upper_char_def ascii_lowercase_def ascii_uppercase_def)

lemma str_nat_small:
  "str_nat 1 = ''1''" "str_nat 2 = ''2''" "str_nat 3 = ''3''" "str_nat 11 = ''11''"
  by (simp_all add: str_nat.simps digit_char_def)

lemma apply_Add_unfold:
  "apply_operation (Add t ns v p) c =
     ([Added (upper t)
         (upper t @ str_nat (case next_ids c (upper t) of None \<Rightarrow> 1 | Some k \<Rightarrow> k))],
      snd (add_component t ns v p c))"
  by (simp add: add_component_unfold)

lemma apply_Remove_unfold:
  "apply_operation (Remove nm) c =
     (if nm \<in> comp_name ` set (components c) then [Removed nm] else [],
      snd (remove_component nm c))"
  using fst_remove_component [of nm c] by (simp add: split_beta)

lemma run_trace_example:
  "fst (run [Add ''r'' [''1'', ''0''] None None, Remove ''R1'',
             Add ''R'' [''2'', ''0''] None None] (Circuit_init 1 None)) =
   [Added ''R'' ''R1'', Removed ''R1'', Added ''R'' ''R2'']"
proof -
  let ?c0 = "Circuit_init 1 None"
  let ?c1 = "snd (add_component ''r'' [''1'', ''0''] None None ?c0)"
  let ?c2 = "snd (remove_component ''R1'' ?c1)"
  have n0: "next_ids ?c0 ''R'' = Some 1"
    by (simp add: Circuit_init_def initial_next_ids_def)
  have n1: "next_ids ?c1 ''R'' = Some 2"
    using n0 by (simp add: add_component_unfold upper_evals)
  have n2: "next_ids ?c2 ''R'' = Some 2"
    using n1 by (simp add: next_ids_remove_component)
  have k1: "comp_name ` set (components ?c1) = {''R1''}"
    using n0 by (simp add: add_component_unfold upper_evals Circuit_init_def str_nat_small str_nat_1)
  have s1: "apply_operation (Add ''r'' [''1'', ''0''] None None) ?c0 = ([Added ''R'' ''R1''], ?c1)"
    using n0 by (simp only: apply_Add_unfold upper_evals) (simp add: str_nat_small str_nat_1)
  have s2: "apply_operation (Remove ''R1'') ?c1 = ([Removed ''R1''], ?c2)"
    by (simp only: apply_Remove_unfold k1) simp
  have s3: "fst (apply_operation (Add ''R'' [''2'', ''0''] None None) ?c2) = [Added ''R'' ''R2'']"
    using n2 by (simp only: apply_Add_unfold upper_evals) (simp add: str_nat_small str_nat_1)
  have e: "fst (run [] c) = []" for c by simp
  show ?thesis
    by (simp only: fst_run_Cons s1 s2 s3 fst_conv snd_conv e append.simps)
qed

lemma next_ids_add_many_other:
  "ty \<noteq> upper t \<Longrightarrow> next_ids (add_many t args c) ty = next_ids c ty"
proof (induction args arbitrary: c)
  case Nil
  show ?case by (simp add: add_many_def)
next
  case (Cons a args)
  obtain ns v p where a: "a = (ns, v, p)" by (cases a)
  have "add_many t (a # args) c = add_many t args (snd (add_component t ns v p c))"
    by (simp add: add_many_def a)
  then show ?case using Cons by (simp add: add_component_unfold)
qed

text \<open>
  The claim C2 as stated fails where a type ends in a digit: after eleven additions of
  type R the name R11 is live; removing it and adding one component of type R1 (its
  first, so numbered 1) generates the name R11 again. (And a type given in lowercase is
  named by its uppercase form: the first component of type r is R1.)
\<close>

theorem name_reuse_counterexample:
  "fst (remove_component ''R11''
          (add_many ''R'' (replicate 11 ([''1'', ''0''], None, None)) (Circuit_init 1 None))) \<and>
   comp_name (fst (add_component ''R1'' [''1'', ''0''] None None
     (snd (remove_component ''R11''
          (add_many ''R'' (replicate 11 ([''1'', ''0''], None, None)) (Circuit_init 1 None)))))) =
     ''R11'' \<and>
   comp_name (fst (add_component ''r'' [''1'', ''0''] None None (Circuit_init 1 None))) = ''R1''"
proof -
  let ?c0 = "Circuit_init 1 None"
  let ?c11 = "add_many ''R'' (replicate 11 ([''1'', ''0''], None, None)) ?c0"
  have names: "map comp_name (components ?c11) = map (\<lambda>j. ''R'' @ str_nat j) [1 ..< 12]"
    using add_many_names [of ?c0 "''R''" "Suc 0" "replicate 11 ([''1'', ''0''], None, None)"]
    by (simp add: Circuit_init_def initial_next_number upper_evals)
  have "''R'' @ str_nat 11 \<in> set (map (\<lambda>j. ''R'' @ str_nat j) [1 ..< 12])"
    by (simp del: upt_Suc)
  then have mem: "''R11'' \<in> comp_name ` set (components ?c11)"
    using names by (simp add: str_nat_small del: set_map set_upt upt_Suc) (metis list.set_map)
  have a: "fst (remove_component ''R11'' ?c11)"
    using mem by (simp only: fst_remove_component)
  have "next_ids ?c11 ''R1'' = next_ids ?c0 ''R1''"
    by (rule next_ids_add_many_other) (simp add: upper_evals)
  then have n: "next_ids (snd (remove_component ''R11'' ?c11)) ''R1'' = None"
    by (simp add: next_ids_remove_component Circuit_init_def initial_next_ids_def)
  have b: "comp_name (fst (add_component ''R1'' [''1'', ''0''] None None
             (snd (remove_component ''R11'' ?c11)))) = ''R11''"
    using n by (simp add: add_component_unfold upper_evals str_nat_small str_nat_1)
  have c: "comp_name (fst (add_component ''r'' [''1'', ''0''] None None ?c0)) = ''R1''"
    by (simp add: add_component_unfold upper_evals Circuit_init_def initial_next_ids_def
          str_nat_small str_nat_1)
  show ?thesis using a b c by simp
qed


theorem generated_names_witness:
  "list_all plain_op [Add ''r'' [''1'', ''0''] None None, Remove ''R1'',
                      Add ''R'' [''2'', ''0''] None None] \<and>
   fst (run [Add ''r'' [''1'', ''0''] None None, Remove ''R1'',
             Add ''R'' [''2'', ''0''] None None] (Circuit_init 1 None)) =
     [Added ''R'' ''R1''] @ Removed ''R1'' # [Added ''R'' ''R2''] \<and>
   Added ''R'' ''R1'' \<notin> set [Added ''R'' ''R2''] \<and>
   map comp_name (components (add_many ''r'' [([''1'', ''0''], None, None),
        ([''2'', ''0''], Some 5, None), ([], None, None)] (Circuit_init 1 None))) =
     [''R1'', ''R2'', ''R3'']"
proof -
  have p: "list_all plain_op [Add ''r'' [''1'', ''0''] None None, Remove ''R1'',
                      Add ''R'' [''2'', ''0''] None None]"
    by (simp add: upper_evals no_trailing_digit_def is_digit_def)
  have u: "[1 ..< Suc (length [([''1'', ''0''], None :: real option, None :: pdict option),
        ([''2'', ''0''], Some 5, None), ([], None, None)])] = [1, 2, 3]"
    by (simp add: upt_rec)
  show ?thesis
    using generated_names [where t = "''r''" and i = 1 and nm = None
        and args = "[([''1'', ''0''], None, None), ([''2'', ''0''], Some 5, None), ([], None, None)]"
        and ops = "[Add ''r'' [''1'', ''0''] None None, Remove ''R1'',
                    Add ''R'' [''2'', ''0''] None None]"
        and xs = "[Added ''R'' ''R1'']" and n = "''R1''" and ys = "[Added ''R'' ''R2'']"
        and ty = "''R''" and c = "Circuit_init 1 None"]
      p run_trace_example
    by (simp only: u) (simp add: upper_evals str_nat_small str_nat_1)
qed

end
